theory Spec2Isabelle
  imports Main
begin

section \<open>Data model\<close>

text \<open>
  The documents of the three collections. The JavaScript numbers \<open>walletMoney\<close>, \<open>cost\<close>
  and \<open>quantity\<close> are doubles; the model covers the doubles with a whole value, as integers,
  and rounds the result of every multiplication, addition and subtraction of the service to
  the nearest double (\<open>to_double\<close> below). Costs and balances with a fractional part are
  outside the model. The \<open>_id\<close> of a product is an ObjectId; \<open>product_id\<close> is its string
  form, which is what \<open>==\<close> compares with a string.
\<close>

text \<open>
  Modelled from the spec: the Product model (\<open>src/models/product.model.js\<close> is not part of the
  sources). Section 3 gives a product an identifier and a cost; \<open>product_id\<close> is the field
  \<open>_id\<close> of the source, as the string that \<open>toString\<close> gives for it.
\<close>

record product =
  product_id :: string
  cost :: int

text \<open>
  Modelled from the spec: the Cart model (\<open>src/models/cart.model.js\<close> is not part of the
  sources). Section 3: the owning user's email and an ordered collection of line items, each a
  product snapshot with a quantity. The field names are the ones the service reads and writes.
\<close>

record cartItem =
  product :: product
  quantity :: int

record cart =
  email :: string
  cartItems :: "cartItem list"

text \<open>The fields of \<open>userSchema\<close> (user.model.js, lines 8 to 56).\<close>

record user =
  name :: string
  email :: string
  password :: string
  walletMoney :: int
  address :: string

text \<open>
  \<open>ApiError status message\<close> is the error of \<open>utils/ApiError\<close>; \<open>Error message\<close> is a plain
  JavaScript \<open>Error\<close>, as the schema validators throw it; \<open>WriteError\<close> stands for the
  rejection of a persistence write and \<open>CastError\<close> for the rejection of a query whose
  \<open>_id\<close> cannot be cast to an ObjectId. The service catches neither.
\<close>

datatype error = ApiError nat string | Error string | WriteError | CastError

definition NOT_FOUND :: nat where
  "NOT_FOUND = 404"

definition BAD_REQUEST :: nat where
  "BAD_REQUEST = 400"

section \<open>The persistence collaborator\<close>

text \<open>
  Modelled from the spec: the collections behind the models \<open>Cart\<close>, \<open>Product\<close> and
  \<open>User\<close> and their \<open>findOne\<close>, \<open>create\<close> and \<open>save\<close>, which belong to the model files
  and the database driver and are not part of the sources. Section 6: a lookup returns a record
  or nothing, keyed by the product identifier or by the owning email; a write stores a new or
  modified record and may fail.

  The database is a value that every operation takes and returns. The product collection is a
  list of documents; the cart collection is keyed by the owning email (one cart per user, section
  3) and the user collection by the user's email, its unique lookup key. Reads are lookups in
  this value. Whether a write is carried out is decided outside the service, so each operation
  takes the outcome of each of its writes as an argument.

  A query for a product names the \<open>_id\<close> by a string, which the driver casts to an ObjectId
  before it compares. The cast is not part of the sources either: \<open>objectId\<close> is the cast of
  this database, from a string to the string form of the ObjectId that it denotes, or to
  nothing when the string denotes none. Several strings may denote one ObjectId.
\<close>

record db =
  products :: "product list"
  carts :: "string \<rightharpoonup> cartItem list"
  users :: "string \<rightharpoonup> user"
  objectId :: "string \<rightharpoonup> string"

record writes =
  cart_create_ok :: bool
  cart_save_ok :: bool
  user_save_ok :: bool

definition all_ok :: writes where
  "all_ok = \<lparr>cart_create_ok = True, cart_save_ok = True, user_save_ok = True\<rparr>"

definition Product_findOne :: "db \<Rightarrow> string \<Rightarrow> error + product option" where
  "Product_findOne d productId =
     (case objectId d productId of
        None \<Rightarrow> Inl CastError
      | Some oid \<Rightarrow> Inr (find (\<lambda>p. product_id p = oid) (products d)))"

definition Cart_findOne :: "db \<Rightarrow> string \<Rightarrow> cart option" where
  "Cart_findOne d e =
     (case carts d e of
        None \<Rightarrow> None
      | Some its \<Rightarrow> Some \<lparr>cart.email = e, cartItems = its\<rparr>)"

text \<open>A failed \<open>Cart.create\<close> leaves the collection as it was and yields no document.\<close>

definition Cart_create :: "bool \<Rightarrow> db \<Rightarrow> string \<Rightarrow> cart option \<times> db" where
  "Cart_create ok d e =
     (if ok then (Some \<lparr>cart.email = e, cartItems = []\<rparr>, d\<lparr>carts := (carts d)(e \<mapsto> [])\<rparr>)
      else (None, d))"

definition Cart_save :: "bool \<Rightarrow> db \<Rightarrow> cart \<Rightarrow> error + db" where
  "Cart_save ok d c =
     (if ok then Inr (d\<lparr>carts := (carts d)(cart.email c \<mapsto> cartItems c)\<rparr>)
      else Inl WriteError)"

definition User_save :: "bool \<Rightarrow> db \<Rightarrow> user \<Rightarrow> error + db" where
  "User_save ok d u =
     (if ok then Inr (d\<lparr>users := (users d)(user.email u \<mapsto> u)\<rparr>)
      else Inl WriteError)"

section \<open>The cart service\<close>

text \<open>
  \<open>item.product._id == productId\<close>, the filter of every operation: the string form of the
  ObjectId against the string as the caller wrote it.
\<close>

definition refers_to :: "string \<Rightarrow> cartItem \<Rightarrow> bool" where
  "refers_to productId item = (product_id (product item) = productId)"

text \<open>
  \<open>!updateProduct\<close> on the array that \<open>filter\<close> returns: every JavaScript object is truthy,
  an empty array included.
\<close>

definition truthy :: "'a list \<Rightarrow> bool" where
  "truthy xs = True"

definition getCartByUser :: "db \<Rightarrow> user \<Rightarrow> error + cart" where
  "getCartByUser d usr =
     (case Cart_findOne d (user.email usr) of
        Some userCart \<Rightarrow> Inr userCart
      | None \<Rightarrow> Inl (ApiError NOT_FOUND ''User does not have a cart''))"

definition addProductToCart ::
  "writes \<Rightarrow> db \<Rightarrow> user \<Rightarrow> string \<Rightarrow> int \<Rightarrow> (error + cart) \<times> db" where
  "addProductToCart w d usr productId qty =
     (case Product_findOne d productId of
        Inl e \<Rightarrow> (Inl e, d)
      | Inr None \<Rightarrow> (Inl (ApiError 400 ''Product doesn't exist in database''), d)
      | Inr (Some prd) \<Rightarrow>
          (case (case Cart_findOne d (user.email usr) of
                   Some c \<Rightarrow> (Some c, d)
                 | None \<Rightarrow> Cart_create (cart_create_ok w) d (user.email usr)) of
             (None, d1) \<Rightarrow> (Inl (ApiError 500 ''Internal Server Error''), d1)
           | (Some userCart, d1) \<Rightarrow>
               if length (filter (refers_to productId) (cartItems userCart)) \<noteq> 0
               then (Inl (ApiError 400
                 ''Product already in cart. Use the cart sidebar to update or remove product from cart''),
                 d1)
               else
                 let pushed = userCart\<lparr>cartItems :=
                       cartItems userCart @ [\<lparr>product = prd, quantity = qty\<rparr>]\<rparr>
                 in (case Cart_save (cart_save_ok w) d1 pushed of
                       Inl e \<Rightarrow> (Inl e, d1)
                     | Inr d2 \<Rightarrow> (Inr pushed, d2))))"

definition deleteProductFromCart ::
  "writes \<Rightarrow> db \<Rightarrow> user \<Rightarrow> string \<Rightarrow> (error + cart) \<times> db" where
  "deleteProductFromCart w d usr productId =
     (case Cart_findOne d (user.email usr) of
        None \<Rightarrow> (Inl (ApiError 400 ''User does not have a cart''), d)
      | Some userCart \<Rightarrow>
          let updateProduct = filter (refers_to productId) (cartItems userCart)
          in if \<not> truthy updateProduct
             then (Inl (ApiError 400 ''Product not in cart''), d)
             else
               let kept = userCart\<lparr>cartItems :=
                     filter (\<lambda>item. \<not> refers_to productId item) (cartItems userCart)\<rparr>
               in (case Cart_save (cart_save_ok w) d kept of
                     Inl e \<Rightarrow> (Inl e, d)
                   | Inr d1 \<Rightarrow> (Inr kept, d1)))"

text \<open>
  \<open>updateProduct\<close> is a new array that holds the very line-item objects of
  \<open>userCart.cartItems\<close>, and the assignment \<open>updateProduct[0].quantity = quantity\<close> writes
  through it. The model keeps the objects in a store indexed by their position in the cart:
  \<open>cartItems\<close> is the list of addresses, \<open>filter\<close> selects addresses, the assignment updates
  the store at the first selected address, and \<open>save\<close> reads the cart back through the store.
\<close>

definition updateProductInCart ::
  "writes \<Rightarrow> db \<Rightarrow> user \<Rightarrow> string \<Rightarrow> int \<Rightarrow> (error + cart) \<times> db" where
  "updateProductInCart w d usr productId qty =
     (case Product_findOne d productId of
        Inl e \<Rightarrow> (Inl e, d)
      | Inr None \<Rightarrow> (Inl (ApiError 400 ''Product doesn't exist in database''), d)
      | Inr (Some prd) \<Rightarrow>
          (case Cart_findOne d (user.email usr) of
             None \<Rightarrow> (Inl (ApiError 400
               ''User does not have a cart. Use POST to create cart and add a product''), d)
           | Some userCart \<Rightarrow>
               let addrs = [0..<length (cartItems userCart)];
                   store = (\<lambda>a. cartItems userCart ! a);
                   updateProduct = filter (\<lambda>a. refers_to productId (store a)) addrs
               in if length updateProduct = 0
                  then (Inl (ApiError 400 ''Product not in cart''), d)
                  else if qty \<le> 0
                  then deleteProductFromCart w d usr productId
                  else
                    let a0 = hd updateProduct;
                        store' = store(a0 := (store a0)\<lparr>quantity := qty\<rparr>);
                        written = userCart\<lparr>cartItems := map store' addrs\<rparr>
                    in (case Cart_save (cart_save_ok w) d written of
                          Inl e \<Rightarrow> (Inl e, d)
                        | Inr d1 \<Rightarrow> (Inr written, d1))))"

text \<open>
  \<open>hasSetNonDefaultAddress\<close> (user.model.js, line 104). \<open>config.default_address\<close> is not in
  the sources and is a parameter.
\<close>

definition hasSetNonDefaultAddress :: "string \<Rightarrow> user \<Rightarrow> bool" where
  "hasSetNonDefaultAddress default_address usr = (address usr \<noteq> default_address)"

text \<open>
  The doubles with a whole value are the integers of magnitude up to \<open>2^53\<close> and, above,
  the integers whose 53 leading binary digits are followed by zeros only. \<open>to_double\<close> rounds
  an integer to the nearest of them, to the one with the even 53rd digit when two are equally
  near, as the arithmetic of doubles rounds its exact result. A double stays below
  \<open>2^1024\<close> in magnitude; the model has no such end and no infinity.
\<close>

fun bit_length :: "nat \<Rightarrow> nat" where
  "bit_length n = (if n = 0 then 0 else Suc (bit_length (n div 2)))"

declare bit_length.simps [simp del]

definition to_double :: "int \<Rightarrow> int" where
  "to_double x =
     (let n = nat \<bar>x\<bar> in
      if n \<le> 2 ^ 53 then x
      else
        let e = bit_length n - 53;
            m = n div 2 ^ e;
            r = n mod 2 ^ e;
            m' = (if 2 ^ e < 2 * r \<or> (2 * r = 2 ^ e \<and> odd m) then m + 1 else m)
        in sgn x * int (m' * 2 ^ e))"

text \<open>\<open>sum += item.quantity * item.product.cost\<close>, from 0.\<close>

definition totalBill :: "cartItem list \<Rightarrow> int" where
  "totalBill its =
     foldl (\<lambda>sum item. to_double (sum + to_double (quantity item * cost (product item)))) 0 its"

text \<open>
  \<open>checkout\<close> assigns to \<open>user.walletMoney\<close> before it saves anything, so the user object of
  the caller is part of the result, next to the database.
\<close>

definition checkout ::
  "string \<Rightarrow> writes \<Rightarrow> db \<Rightarrow> user \<Rightarrow> (error + cart) \<times> db \<times> user" where
  "checkout default_address w d usr =
     (case getCartByUser d usr of
        Inl e \<Rightarrow> (Inl e, d, usr)
      | Inr userCart \<Rightarrow>
          if length (cartItems userCart) = 0
          then (Inl (ApiError BAD_REQUEST ''Cart is Empty''), d, usr)
          else if \<not> hasSetNonDefaultAddress default_address usr
          then (Inl (ApiError BAD_REQUEST ''Address not set''), d, usr)
          else if totalBill (cartItems userCart) > walletMoney usr
          then (Inl (ApiError BAD_REQUEST ''Insuficient Balance''), d, usr)
          else
            let debited = usr\<lparr>walletMoney :=
                            to_double (walletMoney usr - totalBill (cartItems userCart))\<rparr>;
                cleared = userCart\<lparr>cartItems := []\<rparr>
            in (case Cart_save (cart_save_ok w) d cleared of
                  Inl e \<Rightarrow> (Inl e, d, debited)
                | Inr d1 \<Rightarrow>
                    (case User_save (user_save_ok w) d1 debited of
                       Inl e \<Rightarrow> (Inl e, d1, debited)
                     | Inr d2 \<Rightarrow> (Inr cleared, d2, debited))))"

section \<open>Requests and reachable states\<close>

text \<open>
  A request is one call of a mutating service operation. \<open>perform\<close> runs it against the
  database and keeps the database it leaves behind, whether the call returns or throws.
\<close>

datatype request =
    AddProduct user string int
  | UpdateProduct user string int
  | DeleteProduct user string
  | Checkout user

fun perform :: "string \<Rightarrow> writes \<Rightarrow> db \<Rightarrow> request \<Rightarrow> db" where
  "perform default_address w d (AddProduct usr productId qty) =
     snd (addProductToCart w d usr productId qty)"
| "perform default_address w d (UpdateProduct usr productId qty) =
     snd (updateProductInCart w d usr productId qty)"
| "perform default_address w d (DeleteProduct usr productId) =
     snd (deleteProductFromCart w d usr productId)"
| "perform default_address w d (Checkout usr) =
     fst (snd (checkout default_address w d usr))"



fun admitted :: "(int \<Rightarrow> bool) \<Rightarrow> request \<Rightarrow> bool" where
  "admitted accepts (AddProduct usr productId qty) = accepts qty"
| "admitted accepts (UpdateProduct usr productId qty) = True"
| "admitted accepts (DeleteProduct usr productId) = True"
| "admitted accepts (Checkout usr) = True"

text \<open>Carts are created lazily (section 3), so a run of the service starts without carts.\<close>

inductive reachable :: "(int \<Rightarrow> bool) \<Rightarrow> string \<Rightarrow> db \<Rightarrow> bool"
  for accepts :: "int \<Rightarrow> bool" and default_address :: string where
  start: "carts d = Map.empty \<Longrightarrow> reachable accepts default_address d"
| call: "reachable accepts default_address d \<Longrightarrow> admitted accepts r \<Longrightarrow>
         reachable accepts default_address (perform default_address w d r)"


text \<open>The line items stored for an email; none when there is no cart.\<close>

definition line_items :: "db \<Rightarrow> string \<Rightarrow> cartItem list" where
  "line_items d e = (case carts d e of None \<Rightarrow> [] | Some its \<Rightarrow> its)"


section \<open>Exact arithmetic\<close>

text \<open>
  The price of a line item, and what keeps the arithmetic of \<open>checkout\<close> exact: a magnitude
  of at most \<open>2^53\<close> for the price of every line item, for the sum that the prices have
  reached after every line item, and for what is left of the balance.
\<close>

definition price :: "cartItem \<Rightarrow> int" where
  "price item = quantity item * cost (product item)"

definition safe :: "int \<Rightarrow> bool" where
  "safe x = (\<bar>x\<bar> \<le> 2 ^ 53)"

fun exact_from :: "int \<Rightarrow> cartItem list \<Rightarrow> bool" where
  "exact_from so_far [] = True"
| "exact_from so_far (item # its) =
     (safe (price item) \<and> safe (so_far + price item) \<and>
      exact_from (so_far + price item) its)"

definition exact_bill :: "cartItem list \<Rightarrow> int \<Rightarrow> bool" where
  "exact_bill its balance =
     (exact_from 0 its \<and> safe (balance - sum_list (map price its)))"

section \<open>Checkout as a transaction\<close>


section \<open>Regular expressions\<close>

text \<open>
  A string is a list of code units below 256. The patterns of the user model use character
  classes, sequence, alternative and repetition only, so whether a pattern matches is a
  question of membership in a regular language, decided here by taking the residual pattern
  after each code unit.
\<close>

datatype re =
    Fail
  | Eps
  | Chr "char \<Rightarrow> bool"
  | Cat re re
  | Or re re
  | Rep re

fun matches_empty :: "re \<Rightarrow> bool" where
  "matches_empty Fail = False"
| "matches_empty Eps = True"
| "matches_empty (Chr cls) = False"
| "matches_empty (Cat r1 r2) = (matches_empty r1 \<and> matches_empty r2)"
| "matches_empty (Or r1 r2) = (matches_empty r1 \<or> matches_empty r2)"
| "matches_empty (Rep r) = True"

fun residual :: "re \<Rightarrow> char \<Rightarrow> re" where
  "residual Fail x = Fail"
| "residual Eps x = Fail"
| "residual (Chr cls) x = (if cls x then Eps else Fail)"
| "residual (Cat r1 r2) x =
     (if matches_empty r1 then Or (Cat (residual r1 x) r2) (residual r2 x)
      else Cat (residual r1 x) r2)"
| "residual (Or r1 r2) x = Or (residual r1 x) (residual r2 x)"
| "residual (Rep r) x = Cat (residual r x) (Rep r)"

fun matches :: "re \<Rightarrow> string \<Rightarrow> bool" where
  "matches r [] = matches_empty r"
| "matches r (x # xs) = matches (residual r x) xs"

text \<open>The strings a pattern stands for, as the reference for \<open>matches\<close>.\<close>

inductive denotes :: "re \<Rightarrow> string \<Rightarrow> bool" where
  eps: "denotes Eps []"
| chr: "cls x \<Longrightarrow> denotes (Chr cls) [x]"
| cat: "denotes r1 u \<Longrightarrow> denotes r2 v \<Longrightarrow> denotes (Cat r1 r2) (u @ v)"
| or_left: "denotes r1 u \<Longrightarrow> denotes (Or r1 r2) u"
| or_right: "denotes r2 u \<Longrightarrow> denotes (Or r1 r2) u"
| rep_none: "denotes (Rep r) []"
| rep_more: "denotes r u \<Longrightarrow> denotes (Rep r) v \<Longrightarrow> denotes (Rep r) (u @ v)"

definition lit :: "char \<Rightarrow> re" where
  "lit c = Chr (\<lambda>x. x = c)"

definition plus :: "re \<Rightarrow> re" where
  "plus r = Cat r (Rep r)"

definition opt :: "re \<Rightarrow> re" where
  "opt r = Or Eps r"

text \<open>\<open>r{1,3}\<close> and \<open>r{2,}\<close>.\<close>

definition one_to_three :: "re \<Rightarrow> re" where
  "one_to_three r = Cat r (opt (Cat r (opt r)))"

definition two_or_more :: "re \<Rightarrow> re" where
  "two_or_more r = Cat r (Cat r (Rep r))"

definition code :: "char \<Rightarrow> nat" where
  "code c = of_char c"

text \<open>\<open>\d\<close> and \<open>[0-9]\<close>.\<close>

definition digit :: "char \<Rightarrow> bool" where
  "digit c = (48 \<le> code c \<and> code c \<le> 57)"

text \<open>\<open>[a-zA-Z]\<close>.\<close>

definition letter :: "char \<Rightarrow> bool" where
  "letter c = ((97 \<le> code c \<and> code c \<le> 122) \<or> (65 \<le> code c \<and> code c \<le> 90))"

text \<open>\<open>\s\<close>, below 256: tab, line feed, vertical tab, form feed, carriage return, space, no-break space.\<close>

definition whitespace :: "char \<Rightarrow> bool" where
  "whitespace c = (code c \<in> {9, 10, 11, 12, 13, 32, 160})"

text \<open>\<open>[^<>()[\]\\.,;:\s@"]\<close>; 92 is the backslash and 34 the double quote.\<close>

definition local_char :: "char \<Rightarrow> bool" where
  "local_char c =
     (\<not> (c \<in> set ''<>()[].,;:@'' \<or> code c = 92 \<or> code c = 34 \<or> whitespace c))"

text \<open>\<open>[a-zA-Z\-0-9]\<close>.\<close>

definition label_char :: "char \<Rightarrow> bool" where
  "label_char c = (letter c \<or> c = CHR ''-'' \<or> digit c)"

text \<open>The dot of a pattern: any code unit but line feed and carriage return.\<close>

definition any_char :: "char \<Rightarrow> bool" where
  "any_char c = (code c \<noteq> 10 \<and> code c \<noteq> 13)"

text \<open>
  The pattern \<open>re\<close> of the email validator (user.model.js, line 20), between \<open>^\<close> and \<open>$\<close>:
  the local part \<open>([^...]+(\.[^...]+)*)|(".+")\<close>, the \<open>@\<close>, and the domain, either
  \<open>\[d{1,3}\.d{1,3}\.d{1,3}\.d{1,3}\]\<close> or \<open>([a-zA-Z\-0-9]+\.)+[a-zA-Z]{2,}\<close>.
\<close>

definition local_part :: re where
  "local_part =
     Or (Cat (plus (Chr local_char)) (Rep (Cat (lit CHR ''.'') (plus (Chr local_char)))))
        (Cat (Chr (\<lambda>c. code c = 34)) (Cat (plus (Chr any_char)) (Chr (\<lambda>c. code c = 34))))"

definition ip_literal :: re where
  "ip_literal =
     Cat (lit CHR ''['')
       (Cat (one_to_three (Chr digit)) (Cat (lit CHR ''.'')
       (Cat (one_to_three (Chr digit)) (Cat (lit CHR ''.'')
       (Cat (one_to_three (Chr digit)) (Cat (lit CHR ''.'')
       (Cat (one_to_three (Chr digit)) (lit CHR '']''))))))))"

definition domain_name :: re where
  "domain_name =
     Cat (plus (Cat (plus (Chr label_char)) (lit CHR ''.''))) (two_or_more (Chr letter))"

definition email_re :: re where
  "email_re = Cat local_part (Cat (lit CHR ''@'') (Or ip_literal domain_name))"

section \<open>The validators of the user schema\<close>

text \<open>The two kinds of JavaScript value that the email validator handles.\<close>

datatype jsval = JString string | JBoolean bool

text \<open>\<open>String(v)\<close>, also the conversion that \<open>RegExp.prototype.test\<close> applies to its argument.\<close>

fun ToString :: "jsval \<Rightarrow> string" where
  "ToString (JString s) = s"
| "ToString (JBoolean b) = (if b then ''true'' else ''false'')"

text \<open>\<open>===\<close>: values of different types are never equal.\<close>

fun strict_equals :: "jsval \<Rightarrow> jsval \<Rightarrow> bool" where
  "strict_equals (JString a) (JString b) = (a = b)"
| "strict_equals (JBoolean a) (JBoolean b) = (a = b)"
| "strict_equals (JString a) (JBoolean b) = False"
| "strict_equals (JBoolean a) (JString b) = False"

text \<open>\<open>toLowerCase\<close> below 256: A to Z, and the accented capitals 192 to 222 without 215.\<close>

definition lower_char :: "char \<Rightarrow> char" where
  "lower_char c =
     (if (65 \<le> code c \<and> code c \<le> 90) \<or> (192 \<le> code c \<and> code c \<le> 222 \<and> code c \<noteq> 215)
      then char_of (code c + 32) else c)"

definition toLowerCase :: "string \<Rightarrow> string" where
  "toLowerCase s = map lower_char s"

text \<open>\<open>re.test(v)\<close> for a pattern anchored at both ends.\<close>

definition test :: "re \<Rightarrow> jsval \<Rightarrow> bool" where
  "test r v = matches r (ToString v)"

text \<open>
  \<open>s.match(r)\<close> is not null (the operand of \<open>!\<close> is truthy), for a pattern without anchors:
  some substring of \<open>s\<close> matches.
\<close>

definition match :: "re \<Rightarrow> string \<Rightarrow> bool" where
  "match r s = matches (Cat (Rep (Chr (\<lambda>c. True))) (Cat r (Rep (Chr (\<lambda>c. True))))) s"

text \<open>
  The validator of \<open>email\<close> (lines 19 to 22). The closing parenthesis of \<open>re.test(\<close> comes
  after \<open>=== false\<close>: the argument of \<open>test\<close> is the result of the comparison.
\<close>

definition email_validate :: "string \<Rightarrow> error + unit" where
  "email_validate value =
     (if test email_re
           (JBoolean (strict_equals (JString (toLowerCase (ToString (JString value))))
                                    (JBoolean False)))
      then Inl (Error ''Invalid Email'')
      else Inr ())"

text \<open>The validator of \<open>password\<close> (lines 26 to 38).\<close>

definition password_validate :: "string \<Rightarrow> error + unit" where
  "password_validate value =
     (if length value < 8
      then Inl (Error ''Password must contain at least 8 characters'')
      else if \<not> match (Chr digit) value \<or> \<not> match (Chr letter) value
      then Inl (Error ''Password must contain at least one letter and one number'')
      else Inr ())"

section \<open>Example data\<close>

text \<open>
  The products of the examples have short identifiers, and the databases cast every string to
  itself.
\<close>

definition apple :: product where
  "apple = \<lparr>product_id = ''p1'', cost = 100\<rparr>"

definition pear :: product where
  "pear = \<lparr>product_id = ''p2'', cost = 30\<rparr>"

definition alice :: user where
  "alice = \<lparr>name = ''Alice'', user.email = ''alice@example.com'', password = ''secret123'',
             walletMoney = 500, address = ''123 Main St''\<rparr>"

text \<open>Alice has two apples in her cart: a total of 200 against a balance of 500.\<close>

definition shop :: db where
  "shop = \<lparr>products = [apple, pear],
           carts = [''alice@example.com'' \<mapsto> [\<lparr>product = apple, quantity = 2\<rparr>]],
           users = [''alice@example.com'' \<mapsto> alice], objectId = Some\<rparr>"

text \<open>Alice's cart with a pear after the apples.\<close>

definition basket :: db where
  "basket = \<lparr>products = [apple, pear],
             carts = [''alice@example.com'' \<mapsto>
               [\<lparr>product = apple, quantity = 2\<rparr>, \<lparr>product = pear, quantity = 1\<rparr>]],
             users = [''alice@example.com'' \<mapsto> alice], objectId = Some\<rparr>"




text \<open>
  Croesus has a balance of \<open>2^53 + 2\<close> and a cart with one gem, at \<open>2^53\<close>, and one
  apple at 1: a total of \<open>2^53 + 1\<close>.
\<close>

definition gem :: product where
  "gem = \<lparr>product_id = ''p3'', cost = 9007199254740992\<rparr>"

definition penny_apple :: product where
  "penny_apple = \<lparr>product_id = ''p4'', cost = 1\<rparr>"

definition croesus :: user where
  "croesus = \<lparr>name = ''Croesus'', user.email = ''croesus@example.com'',
               password = ''secret123'', walletMoney = 9007199254740994,
               address = ''1 Gold St''\<rparr>"

definition treasury :: db where
  "treasury = \<lparr>products = [gem, penny_apple],
               carts = [''croesus@example.com'' \<mapsto>
                 [\<lparr>product = gem, quantity = 1\<rparr>, \<lparr>product = penny_apple, quantity = 1\<rparr>]],
               users = [''croesus@example.com'' \<mapsto> croesus], objectId = Some\<rparr>"

text \<open>
  The cast of a string of 24 hexadecimal digits: the digits, capital or small, denote the
  ObjectId whose string form has them small. The market is a database with this cast, one
  product and no cart.
\<close>

definition hex_digit :: "char \<Rightarrow> bool" where
  "hex_digit c =
     (digit c \<or> (97 \<le> code c \<and> code c \<le> 102) \<or> (65 \<le> code c \<and> code c \<le> 70))"

definition hex_objectId :: "string \<rightharpoonup> string" where
  "hex_objectId s =
     (if length s = 24 \<and> list_all hex_digit s then Some (map lower_char s) else None)"

definition fig :: product where
  "fig = \<lparr>product_id = ''5f8d0d55b54764421b7156c3'', cost = 40\<rparr>"

definition market :: db where
  "market = \<lparr>products = [fig], carts = Map.empty,
             users = [''alice@example.com'' \<mapsto> alice], objectId = hex_objectId\<rparr>"

section \<open>Facts about the collaborator and the filters\<close>

text \<open>A product is found under the cast of the string, not under the string.\<close>

lemma Product_findOne_id:
  "Product_findOne d productId = Inr (Some prd) \<Longrightarrow> objectId d productId = Some (product_id prd)"
  by (auto simp: Product_findOne_def find_Some_iff split: option.splits)

lemma Cart_findOne_email:
  "Cart_findOne d e = Some c \<Longrightarrow> cart.email c = e \<and> carts d e = Some (cartItems c)"
  by (auto simp: Cart_findOne_def split: option.splits)

text \<open>
  Filtering the addresses of the line items selects the addresses of the items that the filter
  on the items selects.
\<close>

lemma filter_addresses:
  "map (\<lambda>a. xs ! a) (filter (\<lambda>a. P (xs ! a)) [0..<length xs]) = filter P xs"
proof -
  have "filter P (map (\<lambda>a. xs ! a) [0..<length xs]) =
          map (\<lambda>a. xs ! a) (filter (\<lambda>a. P (xs ! a)) [0..<length xs])"
    by (simp add: filter_map comp_def)
  then show ?thesis by (simp add: map_nth)
qed

lemma no_address_iff:
  "length (filter (\<lambda>a. P (xs ! a)) [0..<length xs]) = 0 \<longleftrightarrow> \<not> (\<exists>x \<in> set xs. P x)"
proof -
  have "length (filter (\<lambda>a. P (xs ! a)) [0..<length xs]) = length (filter P xs)"
    using filter_addresses [of xs P] by (metis length_map)
  then show ?thesis by (simp add: filter_empty_conv)
qed

lemma first_address:
  assumes "xs = pre @ x # post" and "\<forall>y \<in> set pre. \<not> P y" and "P x"
  shows "hd (filter (\<lambda>a. P (xs ! a)) [0..<length xs]) = length pre"
proof -
  have len: "length xs = length pre + Suc (length post)"
    using assms(1) by simp
  have "[0..<length pre + Suc (length post)] =
          [0..<length pre] @ [length pre..<length pre + Suc (length post)]"
    by (rule upt_add_eq_append) simp
  then have below: "[0..<length xs] = [0..<length pre] @ [length pre..<length xs]"
    by (simp only: len)
  have from_here: "[length pre..<length xs] = length pre # [Suc (length pre)..<length xs]"
    by (rule upt_conv_Cons) (simp add: len)
  have "filter (\<lambda>a. P (xs ! a)) [0..<length pre] = []"
    using assms(1,2) by (auto simp: filter_empty_conv nth_append)
  moreover have "P (xs ! length pre)"
    using assms(1,3) by simp
  ultimately show ?thesis
    by (simp add: below from_here)
qed

text \<open>Reading the cart back through the store after one assignment.\<close>

lemma read_back:
  "map ((\<lambda>a. xs ! a)(i := v)) [0..<length xs] = xs[i := v]"
  by (rule nth_equalityI) (auto simp: nth_list_update)

text \<open>Up to \<open>2^53\<close> every integer is a double, and the arithmetic of the service is exact.\<close>

lemma to_double_exact: "safe x \<Longrightarrow> to_double x = x"
  by (simp add: safe_def to_double_def Let_def nat_le_iff)

text \<open>
  Above \<open>2^53\<close> the doubles are two apart, above \<open>2^54\<close> four: \<open>2^53 + 1\<close> and
  \<open>2^54 + 2\<close> lie halfway and go to the even neighbour below, \<open>2^53 + 3\<close> and
  \<open>2^54 + 6\<close> to the even neighbour above, \<open>2^54 + 1\<close> to the nearer one.
\<close>

lemma to_double_examples:
  "to_double 9007199254740993 = 9007199254740992"
  "to_double 9007199254740995 = 9007199254740996"
  "to_double (- 9007199254740995) = - 9007199254740996"
  "to_double 18014398509481986 = 18014398509481984"
  "to_double 18014398509481990 = 18014398509481992"
  "to_double 18014398509481985 = 18014398509481984"
  by (simp_all add: to_double_def Let_def bit_length.simps)

lemma bill_from:
  assumes "exact_from a its"
  shows "foldl (\<lambda>sum item. to_double (sum + to_double (quantity item * cost (product item)))) a its =
           a + sum_list (map price its)"
  using assms
proof (induction its arbitrary: a)
  case Nil
  then show ?case by simp
next
  case (Cons item its)
  then have item: "to_double (quantity item * cost (product item)) = price item"
    and first: "to_double (a + price item) = a + price item"
    and rest: "exact_from (a + price item) its"
    by (simp_all add: to_double_exact price_def)
  from Cons.IH [OF rest] show ?case by (simp add: item first)
qed

lemma totalBill_exact:
  assumes "exact_bill its balance"
  shows "totalBill its = sum_list (map price its)"
  using assms bill_from [of 0 its] by (simp add: totalBill_def exact_bill_def)

section \<open>Deleting a product that is not in the cart\<close>

text \<open>
  The guard of \<open>deleteProductFromCart\<close> tests the array and not its length, so the operation
  never reports that the product is missing from the cart.
\<close>

lemma deleteProductFromCart_never_misses:
  "fst (deleteProductFromCart w d usr productId) \<noteq> Inl (ApiError 400 ''Product not in cart'')"
  by (simp add: deleteProductFromCart_def Cart_save_def truthy_def Let_def split: option.splits)

text \<open>
  C1. The specification lets \<open>deleteProductFromCart\<close> fail with BadRequest and the message
  "Product not in cart" when the product is no line item of the user's existing cart. In the
  source the guard never fires: for Alice, whose cart holds only \<open>p1\<close>, deleting \<open>p2\<close>
  saves the cart as it was and returns it.
\<close>

theorem deleteProductFromCart_absent_product_returns_cart:
  "deleteProductFromCart all_ok shop alice ''p2'' =
     (Inr \<lparr>cart.email = ''alice@example.com'', cartItems = [\<lparr>product = apple, quantity = 2\<rparr>]\<rparr>,
      shop)"
  by (simp add: deleteProductFromCart_def Cart_findOne_def Cart_save_def truthy_def refers_to_def
      all_ok_def shop_def alice_def apple_def)

section \<open>Checkout\<close>

text \<open>The successful path of \<open>checkout\<close>, in the terms of the source.\<close>

lemma checkout_affordable:
  assumes "Cart_findOne d (user.email usr) = Some userCart"
    and "cartItems userCart \<noteq> []"
    and "address usr \<noteq> default_address"
    and "totalBill (cartItems userCart) \<le> walletMoney usr"
    and "cart_save_ok w" and "user_save_ok w"
  shows "checkout default_address w d usr =
     (Inr (userCart\<lparr>cartItems := []\<rparr>),
      d\<lparr>carts := (carts d)(user.email usr \<mapsto> []),
        users := (users d)(user.email usr \<mapsto>
          usr\<lparr>walletMoney := to_double (walletMoney usr - totalBill (cartItems userCart))\<rparr>)\<rparr>,
      usr\<lparr>walletMoney := to_double (walletMoney usr - totalBill (cartItems userCart))\<rparr>)"
proof -
  have "cart.email userCart = user.email usr"
    using assms(1) by (simp add: Cart_findOne_email)
  with assms show ?thesis
    by (simp add: checkout_def getCartByUser_def hasSetNonDefaultAddress_def Let_def
        Cart_save_def User_save_def)
qed

text \<open>
  C3 as stated fails for Croesus: his balance of \<open>2^53 + 2\<close> covers the total of
  \<open>2^53 + 1\<close>, but the sum of the source is a sum of doubles and comes to \<open>2^53\<close>, so
  \<open>checkout\<close> leaves him a balance of 2 where the exact total would leave 1.
\<close>

theorem checkout_debits_rounded_total:
  "Cart_findOne treasury (user.email croesus) =
     Some \<lparr>cart.email = ''croesus@example.com'',
           cartItems = [\<lparr>product = gem, quantity = 1\<rparr>, \<lparr>product = penny_apple, quantity = 1\<rparr>]\<rparr> \<and>
   address croesus \<noteq> ''Not Set'' \<and>
   sum_list (map price [\<lparr>product = gem, quantity = 1\<rparr>, \<lparr>product = penny_apple, quantity = 1\<rparr>])
     \<le> walletMoney croesus \<and>
   walletMoney croesus -
     sum_list (map price [\<lparr>product = gem, quantity = 1\<rparr>, \<lparr>product = penny_apple, quantity = 1\<rparr>])
     = 1 \<and>
   checkout ''Not Set'' all_ok treasury croesus =
     (Inr \<lparr>cart.email = ''croesus@example.com'', cartItems = []\<rparr>,
      treasury\<lparr>carts := (carts treasury)(''croesus@example.com'' \<mapsto> []),
               users := (users treasury)(''croesus@example.com'' \<mapsto>
                          croesus\<lparr>walletMoney := 2\<rparr>)\<rparr>,
      croesus\<lparr>walletMoney := 2\<rparr>)"
proof -
  have rounded: "to_double 9007199254740993 = 9007199254740992"
    by (simp add: to_double_def Let_def bit_length.simps)
  show ?thesis
    by (simp add: checkout_def getCartByUser_def hasSetNonDefaultAddress_def Let_def
        Cart_findOne_def Cart_save_def User_save_def totalBill_def to_double_exact safe_def
        rounded price_def all_ok_def treasury_def croesus_def gem_def penny_apple_def)
qed

text \<open>
  C3, amended. When the user's cart exists and is not empty, the address is not the configured
  default, the balance covers the sum over the line items of quantity times cost, and the
  amounts are whole numbers that keep the arithmetic exact (a magnitude of at most \<open>2^53\<close>
  for every quantity times cost, for every partial sum of the total and for the balance that
  is left), \<open>checkout\<close> returns the cart with no line items, and the user's \<open>walletMoney\<close>
  is lowered by exactly that sum, in the user object and in the stored record; the stored
  cart is empty. The two writes are taken to succeed: persistence is a collaborator of the
  service.
\<close>

theorem checkout_succeeds:
  assumes "Cart_findOne d (user.email usr) = Some userCart"
    and "cartItems userCart \<noteq> []"
    and "address usr \<noteq> default_address"
    and "sum_list (map price (cartItems userCart)) \<le> walletMoney usr"
    and "exact_bill (cartItems userCart) (walletMoney usr)"
    and "cart_save_ok w" and "user_save_ok w"
  shows "checkout default_address w d usr =
     (Inr (userCart\<lparr>cartItems := []\<rparr>),
      d\<lparr>carts := (carts d)(user.email usr \<mapsto> []),
        users := (users d)(user.email usr \<mapsto> usr\<lparr>walletMoney := walletMoney usr -
          sum_list (map price (cartItems userCart))\<rparr>)\<rparr>,
      usr\<lparr>walletMoney := walletMoney usr - sum_list (map price (cartItems userCart))\<rparr>)"
proof -
  have total: "totalBill (cartItems userCart) = sum_list (map price (cartItems userCart))"
    using assms(5) by (rule totalBill_exact)
  have "to_double (walletMoney usr - sum_list (map price (cartItems userCart))) =
          walletMoney usr - sum_list (map price (cartItems userCart))"
    using assms(5) by (simp add: exact_bill_def to_double_exact)
  with checkout_affordable [of d usr userCart default_address w] assms total
  show ?thesis by simp
qed

text \<open>
  The scenario of the specification: a balance of 500, the address "123 Main St" and a cart
  total of 200 leave a balance of 300 and an empty cart.
\<close>

theorem checkout_succeeds_witness:
  "checkout ''Not Set'' all_ok shop alice =
     (Inr \<lparr>cart.email = ''alice@example.com'', cartItems = []\<rparr>,
      shop\<lparr>carts := (carts shop)(''alice@example.com'' \<mapsto> []),
           users := (users shop)(''alice@example.com'' \<mapsto> alice\<lparr>walletMoney := 300\<rparr>)\<rparr>,
      alice\<lparr>walletMoney := 300\<rparr>)"
proof -
  have "exact_bill [\<lparr>product = apple, quantity = 2\<rparr>] (walletMoney alice)"
    by (simp add: exact_bill_def safe_def price_def apple_def alice_def)
  with checkout_succeeds [of shop alice
      "\<lparr>cart.email = ''alice@example.com'', cartItems = [\<lparr>product = apple, quantity = 2\<rparr>]\<rparr>"
      "''Not Set''" all_ok]
  show ?thesis
    by (simp add: shop_def alice_def apple_def Cart_findOne_def all_ok_def price_def)
qed

text \<open>
  Once the cart is found, is not empty and the address is set, \<open>checkout\<close> throws its
  balance error exactly when the total exceeds the balance, and a total equal to the balance
  is paid and leaves a balance of 0. The message is spelt as in the source.
\<close>

lemma checkout_balance_guard:
  assumes "Cart_findOne d (user.email usr) = Some userCart"
    and "cartItems userCart \<noteq> []"
    and "address usr \<noteq> default_address"
  shows "fst (checkout default_address w d usr) = Inl (ApiError 400 ''Insuficient Balance'')
           \<longleftrightarrow> walletMoney usr < totalBill (cartItems userCart)"
  using assms
  by (auto simp: checkout_def getCartByUser_def hasSetNonDefaultAddress_def Let_def
        Cart_save_def User_save_def BAD_REQUEST_def split: sum.splits)

lemma checkout_exact_balance:
  assumes "Cart_findOne d (user.email usr) = Some userCart"
    and "cartItems userCart \<noteq> []"
    and "address usr \<noteq> default_address"
    and "totalBill (cartItems userCart) = walletMoney usr"
    and "cart_save_ok w" and "user_save_ok w"
  shows "checkout default_address w d usr =
     (Inr (userCart\<lparr>cartItems := []\<rparr>),
      d\<lparr>carts := (carts d)(user.email usr \<mapsto> []),
        users := (users d)(user.email usr \<mapsto> usr\<lparr>walletMoney := 0\<rparr>)\<rparr>,
      usr\<lparr>walletMoney := 0\<rparr>)"
  using checkout_affordable [of d usr userCart default_address w] assms
  by (simp add: to_double_exact safe_def)

text \<open>
  C7. The specification gives the balance error of \<open>checkout\<close> the message "Insufficient
  Balance". With a balance of 150 against Alice's total of 200 the source throws BadRequest
  with the message "Insuficient Balance", and changes nothing.
\<close>

theorem checkout_balance_message:
  "checkout ''Not Set'' all_ok shop (alice\<lparr>walletMoney := 150\<rparr>) =
     (Inl (ApiError 400 ''Insuficient Balance''), shop, alice\<lparr>walletMoney := 150\<rparr>) \<and>
   ''Insuficient Balance'' \<noteq> ''Insufficient Balance''"
  by (simp add: checkout_def getCartByUser_def hasSetNonDefaultAddress_def Let_def
        Cart_findOne_def totalBill_def to_double_exact safe_def shop_def alice_def apple_def
        BAD_REQUEST_def)

text \<open>
  \<open>checkout\<close> writes the cart and then the user record, as two separate writes. When the
  first is carried out and the second is rejected, the call throws and the emptied cart
  stays stored next to the undebited user record.
\<close>

lemma checkout_user_write_lost:
  assumes "Cart_findOne d (user.email usr) = Some userCart"
    and "cartItems userCart \<noteq> []"
    and "address usr \<noteq> default_address"
    and "totalBill (cartItems userCart) \<le> walletMoney usr"
    and "cart_save_ok w" and "\<not> user_save_ok w"
  shows "checkout default_address w d usr =
     (Inl WriteError,
      d\<lparr>carts := (carts d)(user.email usr \<mapsto> [])\<rparr>,
      usr\<lparr>walletMoney := to_double (walletMoney usr - totalBill (cartItems userCart))\<rparr>)"
proof -
  have "cart.email userCart = user.email usr"
    using assms(1) by (simp add: Cart_findOne_email)
  with assms show ?thesis
    by (simp add: checkout_def getCartByUser_def hasSetNonDefaultAddress_def Let_def
        Cart_save_def User_save_def)
qed




section \<open>Adding a product\<close>

text \<open>
  When the string that names the product is the string form of the product's \<open>_id\<close>,
  \<open>addProductToCart\<close> does what the specification says: for a product of the catalog that
  is no line item of the user's cart (or when the user has no cart yet) it returns and stores
  the cart with the former line items followed by one new line item, which holds the catalog's
  product and the given quantity; any further call for the same string, whatever its quantity
  and the fate of its writes, fails with BadRequest "Product already in cart..." and leaves the
  database as the first call left it.
\<close>

lemma Product_findOne_carts: "Product_findOne (d\<lparr>carts := c\<rparr>) productId = Product_findOne d productId"
  by (cases "objectId d productId") (simp_all add: Product_findOne_def)

lemma addProductToCart_canonical_id:
  assumes "Product_findOne d productId = Inr (Some prd)"
    and "product_id prd = productId"
    and "\<not> (\<exists>item \<in> set (line_items d (user.email usr)). refers_to productId item)"
    and "cart_create_ok w" and "cart_save_ok w"
  shows "(let items' = line_items d (user.email usr) @ [\<lparr>product = prd, quantity = qty\<rparr>];
              d' = d\<lparr>carts := (carts d)(user.email usr \<mapsto> items')\<rparr>
          in addProductToCart w d usr productId qty =
               (Inr \<lparr>cart.email = user.email usr, cartItems = items'\<rparr>, d') \<and>
             addProductToCart w' d' usr productId qty' =
               (Inl (ApiError 400
                  ''Product already in cart. Use the cart sidebar to update or remove product from cart''),
                d'))"
proof -
  have none: "filter (refers_to productId) (line_items d (user.email usr)) = []"
    using assms(3) by (simp add: filter_empty_conv)
  have first: "addProductToCart w d usr productId qty =
           (Inr \<lparr>cart.email = user.email usr,
                 cartItems = line_items d (user.email usr) @ [\<lparr>product = prd, quantity = qty\<rparr>]\<rparr>,
            d\<lparr>carts := (carts d)(user.email usr \<mapsto>
                   line_items d (user.email usr) @ [\<lparr>product = prd, quantity = qty\<rparr>])\<rparr>)"
  proof (cases "carts d (user.email usr)")
    case None
    with assms show ?thesis
      by (simp add: addProductToCart_def Cart_findOne_def Cart_create_def Cart_save_def
          line_items_def Let_def)
  next
    case (Some its)
    with assms none show ?thesis
      by (simp add: addProductToCart_def Cart_findOne_def Cart_save_def line_items_def Let_def)
  qed
  have "Product_findOne
           (d\<lparr>carts := (carts d)(user.email usr \<mapsto>
                   line_items d (user.email usr) @ [\<lparr>product = prd, quantity = qty\<rparr>])\<rparr>)
           productId = Inr (Some prd)"
    using assms(1) by (simp add: Product_findOne_carts)
  then have again: "addProductToCart w'
           (d\<lparr>carts := (carts d)(user.email usr \<mapsto>
                   line_items d (user.email usr) @ [\<lparr>product = prd, quantity = qty\<rparr>])\<rparr>)
           usr productId qty' =
           (Inl (ApiError 400
              ''Product already in cart. Use the cart sidebar to update or remove product from cart''),
            d\<lparr>carts := (carts d)(user.email usr \<mapsto>
                   line_items d (user.email usr) @ [\<lparr>product = prd, quantity = qty\<rparr>])\<rparr>)"
    using assms(2)
    by (simp add: addProductToCart_def Cart_findOne_def refers_to_def)
  from first again show ?thesis by (simp add: Let_def)
qed

text \<open>
  C6. The specification lets a second \<open>addProductToCart\<close> for the same product fail with
  BadRequest "Product already in cart...". The source finds the product under the cast of the
  string and looks for it in the cart under the string itself. In the market, Alice adds the
  fig by its identifier in capital digits: the first call stores one line item, and the second
  call, with the same string, finds no line item for it and stores a second one.
\<close>

theorem addProductToCart_twice_duplicates:
  "addProductToCart all_ok market alice ''5F8D0D55B54764421B7156C3'' 1 =
     (Inr \<lparr>cart.email = ''alice@example.com'', cartItems = [\<lparr>product = fig, quantity = 1\<rparr>]\<rparr>,
      market\<lparr>carts := (carts market)(''alice@example.com'' \<mapsto>
                [\<lparr>product = fig, quantity = 1\<rparr>])\<rparr>) \<and>
   addProductToCart all_ok
      (market\<lparr>carts := (carts market)(''alice@example.com'' \<mapsto>
                [\<lparr>product = fig, quantity = 1\<rparr>])\<rparr>)
      alice ''5F8D0D55B54764421B7156C3'' 1 =
     (Inr \<lparr>cart.email = ''alice@example.com'',
           cartItems = [\<lparr>product = fig, quantity = 1\<rparr>, \<lparr>product = fig, quantity = 1\<rparr>]\<rparr>,
      market\<lparr>carts := (carts market)(''alice@example.com'' \<mapsto>
                [\<lparr>product = fig, quantity = 1\<rparr>, \<lparr>product = fig, quantity = 1\<rparr>])\<rparr>)"
proof -
  have cast: "hex_objectId ''5F8D0D55B54764421B7156C3'' = Some ''5f8d0d55b54764421b7156c3''"
    by code_simp
  show ?thesis
    by (simp add: addProductToCart_def Product_findOne_def Cart_findOne_def Cart_create_def
        Cart_save_def refers_to_def cast all_ok_def market_def alice_def fig_def)
qed

section \<open>Updating a quantity\<close>

text \<open>
  C10. For a user whose cart holds the product and a new quantity above 0, the cart splits
  at the first line item of that product, and \<open>updateProductInCart\<close> does one of these
  things: it fails on an identifier that cannot be cast, on a product missing from the
  catalog, or on a rejected write, and leaves the database as it was; or it returns and
  stores, under the same email, the cart in which
  that one line item has the new quantity and its product snapshot, and every line item
  before and after it is as before, in the same order. Nothing else in the database changes.
\<close>

theorem updateProductInCart_frame:
  assumes "Cart_findOne d (user.email usr) = Some userCart"
    and "\<exists>item \<in> set (cartItems userCart). refers_to productId item"
    and "0 < qty"
  shows "\<exists>pre item post.
           cartItems userCart = pre @ item # post \<and>
           (\<forall>other \<in> set pre. \<not> refers_to productId other) \<and>
           refers_to productId item \<and>
           updateProductInCart w d usr productId qty =
             (case Product_findOne d productId of
                Inl e \<Rightarrow> (Inl e, d)
              | Inr None \<Rightarrow> (Inl (ApiError 400 ''Product doesn't exist in database''), d)
              | Inr (Some prd) \<Rightarrow>
                  if cart_save_ok w
                  then (Inr (userCart\<lparr>cartItems := pre @ item\<lparr>quantity := qty\<rparr> # post\<rparr>),
                        d\<lparr>carts := (carts d)(user.email usr \<mapsto>
                              pre @ item\<lparr>quantity := qty\<rparr> # post)\<rparr>)
                  else (Inl WriteError, d))"
proof -
  from split_list_first_prop [OF assms(2)] obtain pre item post where
    parts: "cartItems userCart = pre @ item # post"
      "\<forall>other \<in> set pre. \<not> refers_to productId other" "refers_to productId item"
    by blast
  have e: "cart.email userCart = user.email usr"
    using assms(1) by (simp add: Cart_findOne_email)
  have some: "length (filter (\<lambda>a. refers_to productId (cartItems userCart ! a))
                  [0..<length (cartItems userCart)]) \<noteq> 0"
    using assms(2) by (simp only: no_address_iff) simp
  have first: "hd (filter (\<lambda>a. refers_to productId (cartItems userCart ! a))
                  [0..<length (cartItems userCart)]) = length pre"
    using parts by (rule first_address)
  have at: "cartItems userCart ! length pre = item"
    by (simp add: parts(1))
  have written: "(cartItems userCart)[length pre := item\<lparr>quantity := qty\<rparr>] =
                   pre @ item\<lparr>quantity := qty\<rparr> # post"
    by (simp add: parts(1))
  have "updateProductInCart w d usr productId qty =
             (case Product_findOne d productId of
                Inl e \<Rightarrow> (Inl e, d)
              | Inr None \<Rightarrow> (Inl (ApiError 400 ''Product doesn't exist in database''), d)
              | Inr (Some prd) \<Rightarrow>
                  if cart_save_ok w
                  then (Inr (userCart\<lparr>cartItems := pre @ item\<lparr>quantity := qty\<rparr> # post\<rparr>),
                        d\<lparr>carts := (carts d)(user.email usr \<mapsto>
                              pre @ item\<lparr>quantity := qty\<rparr> # post)\<rparr>)
                  else (Inl WriteError, d))"
    using assms(1,3) some
    by (simp add: updateProductInCart_def Let_def first read_back at written Cart_save_def e
        split: sum.splits option.splits)
  with parts show ?thesis by blast
qed

text \<open>Alice changes her one pear to four; the apples before it stay as they are.\<close>

theorem updateProductInCart_frame_witness:
  "updateProductInCart all_ok basket alice ''p2'' 4 =
     (Inr \<lparr>cart.email = ''alice@example.com'',
           cartItems = [\<lparr>product = apple, quantity = 2\<rparr>, \<lparr>product = pear, quantity = 4\<rparr>]\<rparr>,
      basket\<lparr>carts := (carts basket)(''alice@example.com'' \<mapsto>
              [\<lparr>product = apple, quantity = 2\<rparr>, \<lparr>product = pear, quantity = 4\<rparr>])\<rparr>)"
  using updateProductInCart_frame [of basket alice
      "\<lparr>cart.email = ''alice@example.com'',
        cartItems = [\<lparr>product = apple, quantity = 2\<rparr>, \<lparr>product = pear, quantity = 1\<rparr>]\<rparr>"
      "''p2''" 4 all_ok]
  by (auto simp: basket_def alice_def apple_def pear_def Cart_findOne_def all_ok_def
      refers_to_def Product_findOne_def Cons_eq_append_conv)






section \<open>What the operations store\<close>







section \<open>Quantities in reachable states\<close>






section \<open>Matching decides membership\<close>

inductive_cases denotes_FailE: "denotes Fail s"
inductive_cases denotes_EpsE: "denotes Eps s"
inductive_cases denotes_ChrE: "denotes (Chr cls) s"
inductive_cases denotes_CatE: "denotes (Cat r1 r2) s"
inductive_cases denotes_OrE: "denotes (Or r1 r2) s"

lemma denotes_nil_matches_empty:
  assumes "denotes r s" and "s = []"
  shows "matches_empty r"
  using assms by (induction rule: denotes.induct) simp_all

lemma matches_empty_denotes_nil: "matches_empty r \<Longrightarrow> denotes r []"
proof (induction r)
  case (Cat r1 r2)
  then have "denotes r1 []" and "denotes r2 []" by simp_all
  then have "denotes (Cat r1 r2) ([] @ [])" by (rule denotes.cat)
  then show ?case by simp
qed (auto intro: denotes.intros)

lemma matches_empty_iff: "matches_empty r \<longleftrightarrow> denotes r []"
  using denotes_nil_matches_empty matches_empty_denotes_nil by blast

text \<open>A string of the pattern that starts with \<open>x\<close> continues with a string of the residual.\<close>

lemma denotes_residual:
  assumes "denotes r t" and "t = x # s"
  shows "denotes (residual r x) s"
  using assms
proof (induction arbitrary: s rule: denotes.induct)
  case (chr cls y)
  then show ?case by (simp add: denotes.eps)
next
  case (cat r1 u r2 v)
  show ?case
  proof (cases u)
    case Nil
    with cat have "denotes (residual r2 x) s" and "matches_empty r1"
      by (simp_all add: matches_empty_iff)
    then show ?thesis by (simp add: denotes.or_right)
  next
    case (Cons y u')
    with cat have "denotes (residual r1 x) u'" and "s = u' @ v" by simp_all
    with cat.hyps(2) have "denotes (Cat (residual r1 x) r2) s"
      by (auto intro: denotes.cat)
    then show ?thesis by (simp add: denotes.or_left)
  qed
next
  case (rep_more r u v)
  show ?case
  proof (cases u)
    case Nil
    with rep_more show ?thesis by simp
  next
    case (Cons y u')
    with rep_more have "denotes (residual r x) u'" and "s = u' @ v" by simp_all
    with rep_more.hyps(2) show ?thesis by (auto intro: denotes.cat)
  qed
qed (simp_all add: denotes.or_left denotes.or_right)

lemma residual_denotes: "denotes (residual r x) s \<Longrightarrow> denotes r (x # s)"
proof (induction r arbitrary: s)
  case Fail
  then show ?case by (auto elim: denotes_FailE)
next
  case Eps
  then show ?case by (auto elim: denotes_FailE)
next
  case (Chr cls)
  then show ?case
    by (auto split: if_splits elim: denotes_FailE denotes_EpsE intro: denotes.chr)
next
  case (Cat r1 r2)
  from Cat.prems consider
      u v where "s = u @ v" "denotes (residual r1 x) u" "denotes r2 v"
    | "matches_empty r1" "denotes (residual r2 x) s"
    by (auto split: if_splits elim!: denotes_OrE denotes_CatE)
  then show ?case
  proof cases
    case 1
    then have "denotes (Cat r1 r2) ((x # u) @ v)"
      using Cat.IH(1) by (intro denotes.cat)
    with 1 show ?thesis by simp
  next
    case 2
    then have "denotes (Cat r1 r2) ([] @ x # s)"
      using Cat.IH(2) by (intro denotes.cat) (simp_all add: matches_empty_iff)
    then show ?thesis by simp
  qed
next
  case (Or r1 r2)
  then show ?case by (auto elim!: denotes_OrE intro: denotes.or_left denotes.or_right)
next
  case (Rep r)
  from Rep.prems obtain u v where "s = u @ v" "denotes (residual r x) u" "denotes (Rep r) v"
    by (auto elim!: denotes_CatE)
  then have "denotes (Rep r) ((x # u) @ v)"
    using Rep.IH by (intro denotes.rep_more)
  with \<open>s = u @ v\<close> show ?case by simp
qed

lemma matches_iff_denotes: "matches r s \<longleftrightarrow> denotes r s"
proof (induction s arbitrary: r)
  case Nil
  show ?case by (simp add: matches_empty_iff)
next
  case (Cons x s)
  then show ?case using denotes_residual residual_denotes by auto
qed

lemma denotes_everything: "denotes (Rep (Chr (\<lambda>c. True))) s"
proof (induction s)
  case Nil
  show ?case by (rule denotes.rep_none)
next
  case (Cons x s)
  have "denotes (Chr (\<lambda>c. True)) [x]" by (rule denotes.chr) simp
  then have "denotes (Rep (Chr (\<lambda>c. True))) ([x] @ s)" using Cons by (rule denotes.rep_more)
  then show ?case by simp
qed

text \<open>A pattern of one character class matches somewhere in a string that has a code unit of the class.\<close>

lemma match_class: "match (Chr cls) s \<longleftrightarrow> (\<exists>c \<in> set s. cls c)"
proof
  assume "match (Chr cls) s"
  then have "denotes (Cat (Rep (Chr (\<lambda>c. True))) (Cat (Chr cls) (Rep (Chr (\<lambda>c. True))))) s"
    by (simp add: match_def matches_iff_denotes)
  then obtain u c v where "s = u @ [c] @ v" "cls c"
    by (auto elim!: denotes_CatE denotes_ChrE)
  then show "\<exists>c \<in> set s. cls c" by auto
next
  assume "\<exists>c \<in> set s. cls c"
  then obtain u c v where s: "s = u @ c # v" and c: "cls c"
    by (auto simp: in_set_conv_decomp)
  have rest: "denotes (Cat (Chr cls) (Rep (Chr (\<lambda>c. True)))) ([c] @ v)"
    using c by (intro denotes.cat denotes.chr denotes_everything)
  have "denotes (Cat (Rep (Chr (\<lambda>c. True))) (Cat (Chr cls) (Rep (Chr (\<lambda>c. True)))))
          (u @ [c] @ v)"
    by (intro denotes.cat denotes_everything rest)
  then show "match (Chr cls) s" by (simp add: match_def matches_iff_denotes s)
qed

section \<open>The email validator\<close>

lemmas pattern_defs = email_re_def local_part_def ip_literal_def domain_name_def lit_def
  plus_def opt_def one_to_three_def two_or_more_def digit_def letter_def whitespace_def
  local_char_def label_char_def any_char_def code_def

text \<open>
  Applied to an address, the pattern tells well-formed from malformed: it is the argument
  of \<open>test\<close> in the validator that keeps it from doing so.
\<close>

lemma email_re_examples:
  "matches email_re ''alice@example.com''"
  "matches email_re ''bob@[10.0.0.1]''"
  "\<not> matches email_re ''not-an-email''"
  "\<not> matches email_re ''alice@example''"
  "\<not> matches email_re ''false''"
  by (simp_all add: pattern_defs)

text \<open>
  C8. The email validator throws for no value, well-formed or not: the comparison of the
  lower-cased string with \<open>false\<close> is false for every string, and the pattern, tested on
  that boolean (the string "false"), does not match.
\<close>

theorem email_validate_never_rejects:
  "strict_equals (JString (toLowerCase (ToString (JString value)))) (JBoolean False) = False \<and>
   test email_re (JBoolean False) = False \<and>
   email_validate value = Inr ()"
  by (simp add: email_validate_def test_def pattern_defs)

section \<open>The password validator\<close>

text \<open>
  C9. The password validator throws (Mongoose reports the thrown error as a ValidationError)
  for exactly the plaintexts that are shorter than 8, or have no letter \<open>a-z\<close>, \<open>A-Z\<close>, or
  have no digit \<open>0-9\<close>; a plaintext with all three properties passes.
\<close>

theorem password_validate_rejects_exactly:
  "((\<exists>msg. password_validate value = Inl (Error msg)) \<longleftrightarrow>
      length value < 8 \<or> \<not> (\<exists>c \<in> set value. letter c) \<or> \<not> (\<exists>c \<in> set value. digit c)) \<and>
   (password_validate value = Inr () \<longleftrightarrow>
      8 \<le> length value \<and> (\<exists>c \<in> set value. letter c) \<and> (\<exists>c \<in> set value. digit c))"
  by (auto simp: password_validate_def match_class)

text \<open>A password of nine characters with letters and digits passes; eight digits do not.\<close>

theorem password_validate_rejects_exactly_witness:
  "password_validate ''secret123'' = Inr () \<and>
   (\<exists>msg. password_validate ''12345678'' = Inl (Error msg))"
  using password_validate_rejects_exactly [of "''secret123''"]
    password_validate_rejects_exactly [of "''12345678''"]
  by (simp add: letter_def digit_def code_def)

end
